theory Spec2Isabelle
  imports Complex_Main "HOL-Library.AList" "HOL-Library.Log_Nat"
begin

text \<open>
  A shallow embedding of the core of the interpreter: the JSON extractor, the capability
  units with their registry, and the assistant with its retry wrapper, its script repair
  loop and its orchestrator. The first part holds the model, function by function as in
  the sources; the second part holds the properties proved about it.
\<close>

section \<open>JSON Extractor (assistant.ts, extractJson)\<close>

text \<open>
  \<^verbatim>\<open>extractJson(content)\<close> scans the text once, character by character. Its loop state is
  the five local variables of the source. \<^verbatim>\<open>JSON.parse\<close> is a built-in of the platform, not
  code of the repository: it is a parameter \<open>parse\<close> of the model, and a parse that throws
  (caught by the \<^verbatim>\<open>try\<close>/\<^verbatim>\<open>catch\<close> around it) is the value \<open>None\<close>.
  \<open>depth\<close> is an \<open>int\<close>: the source decrements it on every closing bracket outside a
  string, also below zero.
\<close>

record 'v scan =
  jsonObjects :: "'v list"
  depth :: int
  currentJson :: string
  inString :: bool
  escapeNext :: bool

definition scan_init :: "'v scan" where
  "scan_init = \<lparr>jsonObjects = [], depth = 0, currentJson = [], inString = False, escapeNext = False\<rparr>"

definition append_char :: "char \<Rightarrow> 'v scan \<Rightarrow> 'v scan" where
  "append_char c st = st\<lparr>currentJson := currentJson st @ [c]\<rparr>"

text \<open>One iteration of the \<^verbatim>\<open>for\<close> loop; the branches are in the order of the source.\<close>

definition extract_step :: "(string \<Rightarrow> 'v option) \<Rightarrow> 'v scan \<Rightarrow> char \<Rightarrow> 'v scan" where
  "extract_step parse st c =
    (if escapeNext st then (append_char c st)\<lparr>escapeNext := False\<rparr>
     else if c = CHR 0x5C then (append_char c st)\<lparr>escapeNext := True\<rparr>
     else if c = CHR 0x22 \<and> \<not> inString st then (append_char c st)\<lparr>inString := True\<rparr>
     else if c = CHR 0x22 \<and> inString st then (append_char c st)\<lparr>inString := False\<rparr>
     else if \<not> inString st then
       (if c = CHR ''{'' \<or> c = CHR ''['' then
          (let st1 = (if depth st = 0 then st\<lparr>currentJson := []\<rparr> else st)
           in append_char c (st1\<lparr>depth := depth st1 + 1\<rparr>))
        else if c = CHR ''}'' \<or> c = CHR '']'' then
          (let st1 = st\<lparr>depth := depth st - 1\<rparr>
           in if depth st1 = 0 then
                (case parse (currentJson st1 @ [c]) of
                   Some parsed \<Rightarrow> st1\<lparr>jsonObjects := jsonObjects st1 @ [parsed], currentJson := []\<rparr>
                 | None \<Rightarrow> st1\<lparr>currentJson := []\<rparr>)
              else append_char c st1)
        else append_char c st)
     else append_char c st)"

definition extractJson :: "(string \<Rightarrow> 'v option) \<Rightarrow> string \<Rightarrow> 'v list" where
  "extractJson parse content = jsonObjects (foldl (extract_step parse) scan_init content)"

text \<open>
  The candidates of a text are what the extractor hands to \<^verbatim>\<open>JSON.parse\<close>: they are read off
  by running the extractor with the parser that accepts every candidate and returns its text.
\<close>

definition candidates :: "string \<Rightarrow> string list" where
  "candidates content = extractJson Some content"

subsection \<open>JSON values and a reference parser\<close>

text \<open>
  The values \<^verbatim>\<open>JSON.parse\<close> returns, and a parser for the fragment of JSON whose numbers
  are integer literals and whose strings have no unicode escapes. The theorems about the
  extractor hold for every \<open>parse\<close>; this parser instantiates the parameter where a
  concrete run is evaluated. Its recursion is bounded by the length of the text.
\<close>

datatype json =
    JNull
  | JBool bool
  | JNumber int
  | JString string
  | JArray "json list"
  | JObject "(string \<times> json) list"

definition is_ws :: "char \<Rightarrow> bool" where
  "is_ws c \<longleftrightarrow> c = CHR '' '' \<or> c = CHR 0x09 \<or> c = CHR 0x0A \<or> c = CHR 0x0D"

definition skip_ws :: "string \<Rightarrow> string" where
  "skip_ws s = dropWhile is_ws s"

definition is_digit :: "char \<Rightarrow> bool" where
  "is_digit c \<longleftrightarrow> (48::nat) \<le> of_char c \<and> (of_char c :: nat) \<le> 57"

definition digits_value :: "string \<Rightarrow> int" where
  "digits_value ds = foldl (\<lambda>a d. 10 * a + (int (of_char d) - 48)) 0 ds"

definition unescape :: "char \<Rightarrow> char option" where
  "unescape e =
    (if e = CHR 0x22 \<or> e = CHR 0x5C \<or> e = CHR ''/'' then Some e
     else if e = CHR ''b'' then Some (CHR 0x08)
     else if e = CHR ''f'' then Some (CHR 0x0C)
     else if e = CHR ''n'' then Some (CHR 0x0A)
     else if e = CHR ''r'' then Some (CHR 0x0D)
     else if e = CHR ''t'' then Some (CHR 0x09)
     else None)"

text \<open>The characters of a string literal after its opening quote, up to the closing one.\<close>

fun parse_chars :: "string \<Rightarrow> (string \<times> string) option" where
  "parse_chars [] = None"
| "parse_chars [c] = (if c = CHR 0x22 then Some ([], []) else None)"
| "parse_chars (c # e # cs) =
    (if c = CHR 0x22 then Some ([], e # cs)
     else if c = CHR 0x5C then
       (case unescape e of
          None \<Rightarrow> None
        | Some ch \<Rightarrow> map_option (\<lambda>(str, rest). (ch # str, rest)) (parse_chars cs))
     else if (of_char c :: nat) < 32 then None
     else map_option (\<lambda>(str, rest). (c # str, rest)) (parse_chars (e # cs)))"

definition parse_number :: "string \<Rightarrow> (json \<times> string) option" where
  "parse_number s =
    (let neg = (s \<noteq> [] \<and> hd s = CHR ''-'');
         body = (if neg then tl s else s);
         ds = takeWhile is_digit body;
         rest = dropWhile is_digit body
     in if ds = [] \<or> (hd ds = CHR ''0'' \<and> length ds > 1) then None
        else if rest \<noteq> [] \<and> (hd rest = CHR ''.'' \<or> hd rest = CHR ''e'' \<or> hd rest = CHR ''E'') then None
        else Some (JNumber (if neg then - digits_value ds else digits_value ds), rest))"

definition parse_literal :: "string \<Rightarrow> (json \<times> string) option" where
  "parse_literal s =
    (if take 4 s = ''true'' then Some (JBool True, drop 4 s)
     else if take 5 s = ''false'' then Some (JBool False, drop 5 s)
     else if take 4 s = ''null'' then Some (JNull, drop 4 s)
     else parse_number s)"

fun parse_value :: "nat \<Rightarrow> string \<Rightarrow> (json \<times> string) option"
  and parse_elements :: "nat \<Rightarrow> string \<Rightarrow> (json list \<times> string) option"
  and parse_members :: "nat \<Rightarrow> string \<Rightarrow> ((string \<times> json) list \<times> string) option"
where
  "parse_value 0 s = None"
| "parse_value (Suc n) s =
    (case skip_ws s of
       [] \<Rightarrow> None
     | c # cs \<Rightarrow>
         if c = CHR ''{'' then
           (if skip_ws cs \<noteq> [] \<and> hd (skip_ws cs) = CHR ''}'' then Some (JObject [], tl (skip_ws cs))
            else map_option (\<lambda>(kvs, rest). (JObject kvs, rest)) (parse_members n cs))
         else if c = CHR ''['' then
           (if skip_ws cs \<noteq> [] \<and> hd (skip_ws cs) = CHR '']'' then Some (JArray [], tl (skip_ws cs))
            else map_option (\<lambda>(vs, rest). (JArray vs, rest)) (parse_elements n cs))
         else if c = CHR 0x22 then map_option (\<lambda>(str, rest). (JString str, rest)) (parse_chars cs)
         else parse_literal (c # cs))"
| "parse_elements 0 s = None"
| "parse_elements (Suc n) s =
    (case parse_value n s of
       None \<Rightarrow> None
     | Some (v, r) \<Rightarrow>
         (case skip_ws r of
            [] \<Rightarrow> None
          | c # r' \<Rightarrow>
              if c = CHR '','' then map_option (\<lambda>(vs, rest). (v # vs, rest)) (parse_elements n r')
              else if c = CHR '']'' then Some ([v], r')
              else None))"
| "parse_members 0 s = None"
| "parse_members (Suc n) s =
    (case skip_ws s of
       [] \<Rightarrow> None
     | q # cs \<Rightarrow>
         if q \<noteq> CHR 0x22 then None
         else
           (case parse_chars cs of
              None \<Rightarrow> None
            | Some (k, r) \<Rightarrow>
                (case skip_ws r of
                   [] \<Rightarrow> None
                 | colon # r1 \<Rightarrow>
                     if colon \<noteq> CHR '':'' then None
                     else
                       (case parse_value n r1 of
                          None \<Rightarrow> None
                        | Some (v, r2) \<Rightarrow>
                            (case skip_ws r2 of
                               [] \<Rightarrow> None
                             | c # r3 \<Rightarrow>
                                 if c = CHR '','' then
                                   map_option (\<lambda>(kvs, rest). ((k, v) # kvs, rest)) (parse_members n r3)
                                 else if c = CHR ''}'' then Some ([(k, v)], r3)
                                 else None)))))"

definition parse_json :: "string \<Rightarrow> json option" where
  "parse_json s =
    (case parse_value (Suc (length s)) s of
       None \<Rightarrow> None
     | Some (v, rest) \<Rightarrow> if skip_ws rest = [] then Some v else None)"

section \<open>Texts and numbers\<close>


function show_nat :: "nat \<Rightarrow> string" where
  "show_nat n = (if n < 10 then [char_of (48 + n)] else show_nat (n div 10) @ [char_of (48 + n mod 10)])"
  by pat_completeness auto
termination
  by (relation "measure id") auto
declare show_nat.simps [simp del]









section \<open>Capability units and their registry (tool_registry.ts)\<close>

subsection \<open>Data\<close>

text \<open>
  A version is a label, any text: the registry creates units at \<^verbatim>\<open>1.0.0\<close>, and
  \<^verbatim>\<open>rollbackTool\<close> stores the label it is passed as it is. \<^verbatim>\<open>incrementVersion\<close> splits the
  label at the dots, turns every part into a number, takes the first three (a part that is
  not there is \<^verbatim>\<open>undefined\<close>) and prints them with dots between, the third increased by one.
\<close>

type_synonym version = string



text \<open>
  The metrics object of a unit; the registry's table holds objects of the same shape.
  Counters are natural numbers, times and rates are exact reals. The value \<^verbatim>\<open>Infinity\<close>
  of \<^verbatim>\<open>fastestExecutionTime\<close> is \<open>None\<close>. The time stamps \<^verbatim>\<open>lastUpdated\<close> and
  \<^verbatim>\<open>lastRun\<close> are readings of the wall clock and are left out.
\<close>

record test_results =
  totalRuns :: nat
  passed :: nat
  failed :: nat

record execution_stats =
  totalExecutions :: nat
  averageExecutionTime :: real
  lastExecutionTime :: "real option"
  fastestExecutionTime :: "real option"
  slowestExecutionTime :: real

record tool_metrics =
  versions :: "version list"
  totalUpdates :: nat
  testResults :: test_results
  executionStats :: execution_stats
  errorRate :: real
  usageCount :: nat

text \<open>
  A unit. \<open>'s\<close> is the type of schema objects, compared by identity in the source
  (\<^verbatim>\<open>schema !== tool.schema\<close>); \<open>None\<close> is \<^verbatim>\<open>undefined\<close>. The tags are optional because
  \<^verbatim>\<open>updateTool\<close> stores whatever it is passed, also nothing.
\<close>

record 's tool =
  name :: string
  version :: version
  description :: string
  source :: string
  tags :: "string list option"
  schema :: "'s option"
  active :: bool
  testHarness :: string
  lastTestResult :: "(bool \<times> string) option"
  metrics :: tool_metrics

text \<open>
  The registry: \<^verbatim>\<open>registryData.tools\<close> and the table \<^verbatim>\<open>this.metrics\<close>, keyed by unit name.
  Writing either to its file changes nothing the operations read back, and a failed write
  is caught and logged, so the files are not part of the state.
\<close>

record 's registry =
  tools :: "'s tool list"
  registryMetrics :: "string \<rightharpoonup> tool_metrics"

subsection \<open>Metrics updates\<close>

datatype update_kind = Version version | Test bool | Execution real | Error bool | Usage

definition min_time :: "real option \<Rightarrow> real \<Rightarrow> real option" where
  "min_time fastest x = (case fastest of None \<Rightarrow> Some x | Some f \<Rightarrow> Some (min f x))"

text \<open>The \<^verbatim>\<open>switch\<close> statement, which \<^verbatim>\<open>Tool.updateMetrics\<close> and
  \<^verbatim>\<open>ToolRegistry.updateMetrics\<close> both contain.\<close>

definition switch_update :: "update_kind \<Rightarrow> tool_metrics \<Rightarrow> tool_metrics" where
  "switch_update u m =
    (case u of
       Version v \<Rightarrow> m\<lparr>versions := versions m @ [v], totalUpdates := totalUpdates m + 1\<rparr>
     | Test success \<Rightarrow>
         (let tr = (testResults m)\<lparr>totalRuns := totalRuns (testResults m) + 1\<rparr>
          in m\<lparr>testResults :=
                 (if success then tr\<lparr>passed := passed tr + 1\<rparr> else tr\<lparr>failed := failed tr + 1\<rparr>)\<rparr>)
     | Execution executionTime \<Rightarrow>
         (let es = executionStats m; n = totalExecutions es + 1
          in m\<lparr>executionStats := es
                 \<lparr>totalExecutions := n,
                  averageExecutionTime := (averageExecutionTime es * real (n - 1) + executionTime) / real n,
                  lastExecutionTime := Some executionTime,
                  fastestExecutionTime := min_time (fastestExecutionTime es) executionTime,
                  slowestExecutionTime := max (slowestExecutionTime es) executionTime\<rparr>\<rparr>)
     | Error isError \<Rightarrow>
         m\<lparr>errorRate :=
             (errorRate m * real (usageCount m) + (if isError then 1 else 0)) / real (usageCount m + 1)\<rparr>
     | Usage \<Rightarrow> m\<lparr>usageCount := usageCount m + 1\<rparr>)"

definition zero_stats :: execution_stats where
  "zero_stats = \<lparr>totalExecutions = 0, averageExecutionTime = 0, lastExecutionTime = None,
                  fastestExecutionTime = None, slowestExecutionTime = 0\<rparr>"

definition zero_metrics :: "version list \<Rightarrow> tool_metrics" where
  "zero_metrics vs = \<lparr>versions = vs, totalUpdates = 0,
     testResults = \<lparr>totalRuns = 0, passed = 0, failed = 0\<rparr>,
     executionStats = zero_stats, errorRate = 0, usageCount = 0\<rparr>"

text \<open>\<^verbatim>\<open>ToolRegistry.updateMetrics\<close>: the entry is created when the table has none.\<close>

definition ToolRegistry_updateMetrics ::
  "string \<Rightarrow> update_kind \<Rightarrow> (string \<rightharpoonup> tool_metrics) \<Rightarrow> (string \<rightharpoonup> tool_metrics)" where
  "ToolRegistry_updateMetrics toolName u tbl =
    (let m = (case tbl toolName of None \<Rightarrow> zero_metrics [] | Some m \<Rightarrow> m)
     in tbl(toolName \<mapsto> switch_update u m))"

text \<open>\<^verbatim>\<open>Tool.saveMetrics\<close> records the unit's current version in the registry's table;
  \<^verbatim>\<open>Tool.updateMetrics\<close> ends with it.\<close>

definition Tool_saveMetrics :: "'s tool \<Rightarrow> (string \<rightharpoonup> tool_metrics) \<Rightarrow> (string \<rightharpoonup> tool_metrics)" where
  "Tool_saveMetrics t tbl = ToolRegistry_updateMetrics (name t) (Version (version t)) tbl"

definition Tool_updateMetrics ::
  "update_kind \<Rightarrow> 's tool \<times> (string \<rightharpoonup> tool_metrics) \<Rightarrow> 's tool \<times> (string \<rightharpoonup> tool_metrics)" where
  "Tool_updateMetrics u st =
    (let t = (fst st)\<lparr>metrics := switch_update u (metrics (fst st))\<rparr>
     in (t, Tool_saveMetrics t (snd st)))"

text \<open>\<^verbatim>\<open>Tool.initializeMetrics\<close>, run by the constructor.\<close>

definition Tool_initializeMetrics :: "'s tool \<Rightarrow> 's tool" where
  "Tool_initializeMetrics t = t\<lparr>metrics := zero_metrics [version t]\<rparr>"

subsection \<open>Invoking a unit\<close>

text \<open>
  \<^verbatim>\<open>Tool.call(params, parent)\<close>. The unit's code is loaded and run by \<^verbatim>\<open>this.executor()\<close>;
  what it does is a parameter \<open>exec\<close>: it sees the unit and the table as they are when it
  starts, and either returns a result (\<open>Inr\<close>) or throws (\<open>Inl\<close>). \<open>elapsed\<close> is the
  difference of the two clock readings around it. After the metrics update of the
  \<^verbatim>\<open>catch\<close> block the call throws: the error of the code, or the one the emitter raises
  for an \<^verbatim>\<open>error\<close> event that nobody listens to; the model returns the former.
\<close>

definition Tool_call ::
  "('s tool \<Rightarrow> (string \<rightharpoonup> tool_metrics) \<Rightarrow> 'p \<Rightarrow> 'e + 'r) \<Rightarrow> real \<Rightarrow> 'p \<Rightarrow>
   's tool \<times> (string \<rightharpoonup> tool_metrics) \<Rightarrow> ('e + 'r) \<times> 's tool \<times> (string \<rightharpoonup> tool_metrics)" where
  "Tool_call exec elapsed params st =
    (let st1 = Tool_updateMetrics Usage st
     in case exec (fst st1) (snd st1) params of
          Inr result \<Rightarrow> (Inr result, Tool_updateMetrics (Execution elapsed) st1)
        | Inl error \<Rightarrow> (Inl error, Tool_updateMetrics (Error True) st1))"

subsection \<open>Registry operations\<close>








text \<open>\<^verbatim>\<open>removeTool(name)\<close>: the returned boolean and the registry afterwards.\<close>

definition ToolRegistry_removeTool :: "string \<Rightarrow> 's registry \<Rightarrow> bool \<times> 's registry" where
  "ToolRegistry_removeTool n reg =
    (let initialLength = length (tools reg);
         reg1 = reg\<lparr>tools := filter (\<lambda>t. name t \<noteq> n) (tools reg)\<rparr>;
         removed = (length (tools reg1) < initialLength)
     in (removed, reg1))"

section \<open>The assistant (assistant.ts)\<close>

subsection \<open>State\<close>

text \<open>
  The fields of the \<^verbatim>\<open>Assistant\<close> object that its methods change: the run-scoped
  \<^verbatim>\<open>store\<close>, the retry counter, and, as a log, the durations of the timers the methods
  wait on (\<^verbatim>\<open>pause\<close> and the two \<^verbatim>\<open>setTimeout\<close> calls). A key of the store that holds
  \<^verbatim>\<open>undefined\<close> is \<open>Some None\<close>. Everything else the methods act on (the registry, the
  memory index, the conversation) lives in the extension of the record and is reached
  through parameters of the model.
\<close>

datatype timer = Pause nat | RetryDelay nat | RepairDelay nat

record assistant =
  store :: "string \<rightharpoonup> json option"
  globalRetryCount :: nat
  timers :: "timer list"

definition globalRetryLimit :: nat where
  "globalRetryLimit = 100"

definition pause :: "nat \<Rightarrow> 'a assistant_scheme \<Rightarrow> 'a assistant_scheme" where
  "pause duration s = s\<lparr>timers := timers s @ [Pause duration]\<rparr>"

definition retry_wait :: "nat \<Rightarrow> 'a assistant_scheme \<Rightarrow> 'a assistant_scheme" where
  "retry_wait retryDelay s = s\<lparr>timers := timers s @ [RetryDelay retryDelay]\<rparr>"

subsection \<open>Capability-invocation retry\<close>

text \<open>
  An error is its message. \<^verbatim>\<open>isRetryableError\<close> lower-cases the message (here: its ASCII
  letters) and looks for one of three texts in it.
\<close>

definition retryableErrorMessages :: "string list" where
  "retryableErrorMessages = [''network timeout'', ''connection refused'', ''server unavailable'']"

definition toLowerCase :: "string \<Rightarrow> string" where
  "toLowerCase s = map (\<lambda>c. if (65::nat) \<le> of_char c \<and> (of_char c :: nat) \<le> 90
                              then char_of (of_char c + (32::nat)) else c) s"

fun str_includes :: "string \<Rightarrow> string \<Rightarrow> bool" where
  "str_includes [] m = (m = [])"
| "str_includes (c # cs) m = (take (length m) (c # cs) = m \<or> str_includes cs m)"

definition isRetryableError :: "string \<Rightarrow> bool" where
  "isRetryableError error =
     list_ex (\<lambda>message. str_includes (toLowerCase error) message) retryableErrorMessages"

text \<open>
  \<^verbatim>\<open>retryOperation(operation, maxRetries, delay)\<close>. The operation is a closure with effects:
  a function of the state that returns a result (\<open>Inr\<close>) or throws (\<open>Inl\<close>). \<open>attempt\<close> is the
  body of the \<^verbatim>\<open>try\<close> block, the loop is the \<^verbatim>\<open>while (true)\<close> with its \<^verbatim>\<open>catch\<close> block; it
  ends because \<open>retries\<close> grows up to \<open>maxRetries\<close>. The error thrown at the ceiling passes
  through the same \<^verbatim>\<open>catch\<close> block as the operation's errors.
\<close>

definition attempt ::
  "('a assistant_scheme \<Rightarrow> (string + 'r) \<times> 'a assistant_scheme) \<Rightarrow> 'a assistant_scheme \<Rightarrow>
   (string + 'r) \<times> 'a assistant_scheme" where
  "attempt operation s =
    (let s1 = s\<lparr>globalRetryCount := globalRetryCount s + 1\<rparr>
     in if globalRetryCount s1 > globalRetryLimit then (Inl ''Global retry limit exceeded.'', s1)
        else operation (pause 1000 s1))"

function retry_loop ::
  "('a assistant_scheme \<Rightarrow> (string + 'r) \<times> 'a assistant_scheme) \<Rightarrow> nat \<Rightarrow> nat \<Rightarrow> nat \<Rightarrow>
   'a assistant_scheme \<Rightarrow> (string + 'r) \<times> 'a assistant_scheme" where
  "retry_loop operation maxRetries delay retries s =
    (case attempt operation s of
       (Inr result, s2) \<Rightarrow> (Inr result, s2)
     | (Inl error, s2) \<Rightarrow>
         if retries \<ge> maxRetries \<or> \<not> isRetryableError error then (Inl error, s2)
         else retry_loop operation maxRetries delay (retries + 1)
                (retry_wait (delay * 2 ^ (retries + 1)) s2))"
  by pat_completeness auto
termination
  by (relation "measure (\<lambda>(operation, maxRetries, delay, retries, s). maxRetries - retries)") auto
declare retry_loop.simps [simp del]

definition retryOperation ::
  "('a assistant_scheme \<Rightarrow> (string + 'r) \<times> 'a assistant_scheme) \<Rightarrow> nat \<Rightarrow> nat \<Rightarrow>
   'a assistant_scheme \<Rightarrow> (string + 'r) \<times> 'a assistant_scheme" where
  "retryOperation operation maxRetries delay s = retry_loop operation maxRetries delay 0 s"

text \<open>
  \<^verbatim>\<open>callTool(toolName, params)\<close>. The registry is an injected object of type \<^verbatim>\<open>any\<close>: its
  \<^verbatim>\<open>loadTool\<close> and \<^verbatim>\<open>callTool\<close> are parameters, as is the answer of the user to
  \<^verbatim>\<open>promptUser\<close>. The call of \<^verbatim>\<open>callTool\<close> inside the \<^verbatim>\<open>busybox\<close> branch runs after every
  answer of the user, without a bound; its outcome is a parameter too.
\<close>

record 'a tool_port =
  loadTool :: "string \<Rightarrow> 'a assistant_scheme \<Rightarrow> bool \<times> 'a assistant_scheme"
  registry_callTool ::
    "string \<Rightarrow> json option \<Rightarrow> 'a assistant_scheme \<Rightarrow> (string + json option) \<times> 'a assistant_scheme"
  promptUser :: "string \<Rightarrow> 'a assistant_scheme \<Rightarrow> string \<times> 'a assistant_scheme"
  nested_callTool ::
    "string \<Rightarrow> json option \<Rightarrow> 'a assistant_scheme \<Rightarrow> (string + json option) \<times> 'a assistant_scheme"

definition first_param :: "json option \<Rightarrow> json option" where
  "first_param params =
    (case params of
       Some (JArray xs) \<Rightarrow> (case xs of [] \<Rightarrow> None | x # _ \<Rightarrow> Some x)
     | _ \<Rightarrow> params)"

text \<open>\<^verbatim>\<open>params.args[0] = alternativeLocation\<close>; the assignment throws a \<^verbatim>\<open>TypeError\<close> unless
  \<^verbatim>\<open>params\<close> is an object whose \<^verbatim>\<open>args\<close> is an array or an object.\<close>

definition set_first_arg :: "json option \<Rightarrow> string \<Rightarrow> string + json option" where
  "set_first_arg params v =
    (case params of
       Some (JObject kvs) \<Rightarrow>
         (case map_of kvs ''args'' of
            Some (JArray xs) \<Rightarrow> Inr (Some (JObject (AList.update ''args'' (JArray (JString v # tl xs)) kvs)))
          | Some (JObject ps) \<Rightarrow>
              Inr (Some (JObject (AList.update ''args'' (JObject (AList.update ''0'' (JString v) ps)) kvs)))
          | _ \<Rightarrow> Inl ''TypeError: cannot set property 0'')
     | _ \<Rightarrow> Inl ''TypeError: cannot read property args'')"

definition no_response_text :: string where
  "no_response_text = ''I'' @ [CHR 0x27] @ ''m sorry, but I didn'' @ [CHR 0x27]
     @ ''t receive a response. Could you please try again?''"

definition callTool_operation ::
  "'a tool_port \<Rightarrow> string \<Rightarrow> json option \<Rightarrow> 'a assistant_scheme \<Rightarrow>
   (string + json option) \<times> 'a assistant_scheme" where
  "callTool_operation port toolName params s =
    (case (case loadTool port toolName s of
             (False, s1) \<Rightarrow> (Inl (''Tool '' @ [CHR 0x27] @ toolName @ [CHR 0x27] @ '' not found.''), s1)
           | (True, s1) \<Rightarrow> registry_callTool port toolName params s1) of
       (Inr result, s2) \<Rightarrow> (Inr result, s2)
     | (Inl error, s2) \<Rightarrow>
         if toolName = ''ask'' \<and> str_includes error ''No response received''
         then (Inr (Some (JString no_response_text)), s2)
         else if toolName = ''busybox'' \<and> str_includes error ''No such file or directory'' then
           (case promptUser port
                   ''The specified file or directory was not found. Please provide an alternative location:'' s2 of
              (alternativeLocation, s3) \<Rightarrow>
                if alternativeLocation \<noteq> [] then
                  (case set_first_arg params alternativeLocation of
                     Inl typeError \<Rightarrow> (Inl typeError, s3)
                   | Inr params' \<Rightarrow> nested_callTool port toolName params' s3)
                else (Inl error, s3))
         else (Inl error, s2))"

definition callTool ::
  "'a tool_port \<Rightarrow> string \<Rightarrow> json option \<Rightarrow> 'a assistant_scheme \<Rightarrow>
   (string + json option) \<times> 'a assistant_scheme" where
  "callTool port toolName params s =
     retryOperation (callTool_operation port toolName (first_param params)) 3 1000 s"

subsection \<open>Texts and objects\<close>

text \<open>
  \<^verbatim>\<open>String.prototype.replace\<close> with a global pattern that is a fixed text, and reading and
  writing a member of an object (of two members of the same name the later one counts).
\<close>

function replace_all :: "string \<Rightarrow> string \<Rightarrow> string \<Rightarrow> string" where
  "replace_all pat rep s =
    (if pat = [] \<or> s = [] then s
     else if take (length pat) s = pat then rep @ replace_all pat rep (drop (length pat) s)
     else hd s # replace_all pat rep (tl s))"
  by pat_completeness auto
termination
  by (relation "measure (\<lambda>(pat, rep, s). length s)") auto
declare replace_all.simps [simp del]

definition get_property :: "string \<Rightarrow> (string \<times> json) list \<Rightarrow> json option" where
  "get_property k kvs = map_of (rev kvs) k"


definition unescapeTemplateLiteral :: "string \<Rightarrow> string" where
  "unescapeTemplateLiteral str =
     replace_all [CHR 0x5C, CHR ''$'', CHR ''{''] ''${'' (replace_all [CHR 0x5C, CHR 0x60] [CHR 0x60] str)"

subsection \<open>Execution context\<close>

text \<open>
  \<^verbatim>\<open>prepareContext()\<close>. The context object has its eight fixed members, then one member per
  tool name (a function that invokes the tool), then one member per key of the store; a
  later assignment replaces an earlier one of the same name. \<^verbatim>\<open>context.tools\<close> holds the
  tool functions and \<^verbatim>\<open>context.taskResults\<close> a copy of the store.
\<close>

datatype binding = Module | ToolFunction string | StoreValue "json option"

record script_context =
  tools_of :: "string list"
  taskResults :: "string \<rightharpoonup> json option"
  bindings :: "string \<rightharpoonup> binding"

definition fixed_members :: "string list" where
  "fixed_members = [''tools'', ''taskResults'', ''console'', ''require'', ''fs'', ''path'', ''axios'', ''_'']"

definition prepareContext :: "string list \<Rightarrow> string list \<Rightarrow> (string \<rightharpoonup> json option) \<Rightarrow> script_context" where
  "prepareContext registryTools importedTools st =
    \<lparr>tools_of = registryTools @ importedTools,
     taskResults = st,
     bindings = (\<lambda>k. case st k of
                       Some v \<Rightarrow> Some (StoreValue v)
                     | None \<Rightarrow>
                         if k \<in> set (registryTools @ importedTools) then Some (ToolFunction k)
                         else if k \<in> set fixed_members then Some Module
                         else None)\<rparr>"

subsection \<open>Script execution and repair (callScript)\<close>

text \<open>
  What \<^verbatim>\<open>callScript\<close> and \<^verbatim>\<open>callAgent\<close> reach outside the assistant: the registry, the
  memory index, the confidence calculator, the conversation with the language model and the
  evaluation of a script text by the JavaScript engine. Each is a parameter: a function of
  the state that returns (\<open>Inr\<close>) or throws (\<open>Inl\<close>), so every awaited call settles.
  \<^verbatim>\<open>decomposeChat\<close> stands for building the prompt from the tool listing and the memories and
  for the chat that answers it, \<^verbatim>\<open>adaptChat\<close> for the chat of \<^verbatim>\<open>adaptMemoryToInput\<close>,
  \<^verbatim>\<open>repairChat\<close> for the chat of the repair loop; each gives the text of the reply.
\<close>

record memory =
  input :: string
  response :: string
  confidence :: real
  similarity :: real
  usedTools :: "string list"

record repair_request =
  attempt_number :: nat
  attempt_limit :: nat
  failure :: string
  failed_script :: "json option"
  try_something_else :: bool

record 'a agent_port =
  predictLikelyTools :: "string \<Rightarrow> 'a assistant_scheme \<Rightarrow> (string + string list) \<times> 'a assistant_scheme"
  findSimilarMemories ::
    "string \<Rightarrow> real \<Rightarrow> 'a assistant_scheme \<Rightarrow> (string + memory list) \<times> 'a assistant_scheme"
  calculateRetrievalConfidence :: "real \<Rightarrow> real \<Rightarrow> real"
  updateConfidence :: "real \<Rightarrow> real \<Rightarrow> real"
  calculateInitialConfidence :: "real \<Rightarrow> string \<Rightarrow> real"
  adaptChat :: "memory \<Rightarrow> string \<Rightarrow> string \<Rightarrow> 'a assistant_scheme \<Rightarrow> (string + string) \<times> 'a assistant_scheme"
  updateMemory :: "string \<Rightarrow> string \<Rightarrow> real \<Rightarrow> 'a assistant_scheme \<Rightarrow> (string + unit) \<times> 'a assistant_scheme"
  storeMemory :: "string \<Rightarrow> string \<Rightarrow> real \<Rightarrow> 'a assistant_scheme \<Rightarrow> (string + unit) \<times> 'a assistant_scheme"
  decomposeChat ::
    "string list \<Rightarrow> memory list \<Rightarrow> string \<Rightarrow> string \<Rightarrow> 'a assistant_scheme \<Rightarrow>
     (string + string) \<times> 'a assistant_scheme"
  JSON_parse :: "string \<Rightarrow> json option"
  JSON_stringify :: "json list \<Rightarrow> string"
  getTool :: "json option \<Rightarrow> 'a assistant_scheme \<Rightarrow> string option \<times> 'a assistant_scheme"
  callRegisteredTool :: "string \<Rightarrow> 'a assistant_scheme \<Rightarrow> (string + json option) \<times> 'a assistant_scheme"
  registryToolNames :: "'a assistant_scheme \<Rightarrow> string list"
  importedToolNames :: "string list"
  executeScript ::
    "json option \<Rightarrow> script_context \<Rightarrow> 'a assistant_scheme \<Rightarrow> (string + json option) \<times> 'a assistant_scheme"
  repairChat :: "repair_request \<Rightarrow> 'a assistant_scheme \<Rightarrow> (string + string) \<times> 'a assistant_scheme"


definition repair_wait :: "nat \<Rightarrow> 'a assistant_scheme \<Rightarrow> 'a assistant_scheme" where
  "repair_wait duration s = s\<lparr>timers := timers s @ [RepairDelay duration]\<rparr>"

text \<open>The body of the \<^verbatim>\<open>try\<close> block of \<^verbatim>\<open>callScript\<close>: a script that is a registered tool is
  invoked as that tool, any other is evaluated in a fresh context.\<close>

definition callScript_try ::
  "'a agent_port \<Rightarrow> json option \<Rightarrow> 'a assistant_scheme \<Rightarrow> (string + json option) \<times> 'a assistant_scheme" where
  "callScript_try port scr s =
    (case getTool port scr s of
       (Some existingTool, s1) \<Rightarrow> callRegisteredTool port existingTool s1
     | (None, s1) \<Rightarrow>
         executeScript port scr
           (prepareContext (registryToolNames port s1) (importedToolNames port) (store s1)) s1)"

text \<open>The script the repair chat proposes: the \<^verbatim>\<open>modifiedScript\<close> member of the parsed
  reply, unescaped. Anything that throws on the way leaves the script as it was.\<close>

definition repaired_script :: "'a agent_port \<Rightarrow> json option \<Rightarrow> string + string \<Rightarrow> json option" where
  "repaired_script port scr reply =
    (case reply of
       Inl fixError \<Rightarrow> scr
     | Inr text \<Rightarrow>
         (case JSON_parse port text of
            Some (JObject kvs) \<Rightarrow>
              (case get_property ''modifiedScript'' kvs of
                 Some (JString modifiedScript) \<Rightarrow> Some (JString (unescapeTemplateLiteral modifiedScript))
               | _ \<Rightarrow> scr)
          | _ \<Rightarrow> scr))"

function callScript_loop ::
  "'a agent_port \<Rightarrow> nat \<Rightarrow> nat \<Rightarrow> json option \<Rightarrow> 'a assistant_scheme \<Rightarrow>
   (string + json option) \<times> 'a assistant_scheme" where
  "callScript_loop port retryLimit retryCount scr s =
    (if retryCount < retryLimit then
       (case callScript_try port scr s of
          (Inr result, s1) \<Rightarrow> (Inr result, s1)
        | (Inl err, s1) \<Rightarrow>
            if retryCount + 1 \<ge> retryLimit
            then (Inl (''Script execution failed after '' @ show_nat retryLimit @ '' attempts.''), s1)
            else
              (case repairChat port
                      \<lparr>attempt_number = retryCount + 1, attempt_limit = retryLimit, failure = err,
                       failed_script = scr, try_something_else = (2 * (retryCount + 1) = retryLimit)\<rparr> s1 of
                 (reply, s2) \<Rightarrow>
                   callScript_loop port retryLimit (retryCount + 1) (repaired_script port scr reply)
                     (repair_wait (1000 * (retryCount + 1)) s2)))
     else (Inl ''Reached end of callScript function. This should not happen.'', s))"
  by pat_completeness auto
termination
  by (relation "measure (\<lambda>(port, retryLimit, retryCount, scr, s). retryLimit - retryCount)") auto
declare callScript_loop.simps [simp del]

definition callScript ::
  "'a agent_port \<Rightarrow> json option \<Rightarrow> 'a assistant_scheme \<Rightarrow> (string + json option) \<times> 'a assistant_scheme" where
  "callScript port scr s = callScript_loop port 10 0 scr s"

subsection \<open>The orchestrator (callAgent)\<close>

text \<open>
  The store holds values. Three of its entries are, in the source, references to objects
  that the loop changes afterwards (the list of subtasks under the request, a subtask under
  \<^verbatim>\<open><taskId>_task\<close>, the result sequence under the \<^verbatim>\<open>resultVar\<close> of the call); the model stores
  the value the object has when it is assigned. The events the loop emits and the two calls
  that are started without being awaited (\<^verbatim>\<open>considerAddingAsTool\<close>, \<^verbatim>\<open>optimizeScripts\<close>) are
  not part of the model. A thrown value is an \<^verbatim>\<open>Error\<close> object, represented by its message.
\<close>

text \<open>One entry of the result sequence: \<^verbatim>\<open>{ id, task, script, result }\<close>.\<close>

record rout =
  r_id :: string
  r_task :: string
  r_script :: "json option"
  r_result :: "json option"

datatype agent_data = Adapted string | Results "rout list"

record agent_result =
  success :: bool
  data :: "agent_data option"
  error :: "string option"















section \<open>Notions used in the statements\<close>

text \<open>
  Two scans are the same up to parsing when they agree on everything but the values
  collected, and the values of the first are the parsed candidates of the second.
\<close>

definition same_scan :: "(string \<Rightarrow> 'v option) \<Rightarrow> 'v scan \<Rightarrow> string scan \<Rightarrow> bool" where
  "same_scan parse st st' \<longleftrightarrow>
     depth st = depth st' \<and> currentJson st = currentJson st' \<and> inString st = inString st' \<and>
     escapeNext st = escapeNext st' \<and> jsonObjects st = List.map_filter parse (jsonObjects st')"

text \<open>
  An operation is confined when it leaves the counter and the timer log alone (it does not
  run the wrapper itself). The retry delays of a run are the \<open>RetryDelay\<close> entries it adds
  to the log; \<open>backoff_schedule\<close> is the log of a run whose attempts all fail with a
  retryable error.
\<close>

definition confined :: "('a assistant_scheme \<Rightarrow> (string + 'r) \<times> 'a assistant_scheme) \<Rightarrow> bool" where
  "confined operation \<longleftrightarrow>
     (\<forall>x. globalRetryCount (snd (operation x)) = globalRetryCount x \<and> timers (snd (operation x)) = timers x)"

definition is_retry :: "timer \<Rightarrow> bool" where
  "is_retry w = (case w of RetryDelay d \<Rightarrow> True | _ \<Rightarrow> False)"

definition backoff_schedule :: "nat \<Rightarrow> nat \<Rightarrow> nat \<Rightarrow> timer list" where
  "backoff_schedule delay retries maxRetries =
     Pause 1000 # concat (map (\<lambda>k. [RetryDelay (delay * 2 ^ k), Pause 1000]) [Suc retries..<Suc maxRetries])"


section \<open>Worked examples\<close>

subsection \<open>A platform for decimal numerals\<close>




subsection \<open>A registry with one unit\<close>

definition example_tool :: "nat tool" where
  "example_tool = Tool_initializeMetrics
     \<lparr>name = ''t'', version = ''1.0.0'', description = ''adds'', source = ''return 1'',
      tags = Some [], schema = Some 0, active = False, testHarness = [],
      lastTestResult = None, metrics = zero_metrics []\<rparr>"

definition example_registry :: "nat registry" where
  "example_registry = \<lparr>tools = [example_tool],
     registryMetrics = Map.empty(''t'' \<mapsto> zero_metrics [''1.0.0''])\<rparr>"


definition failing_exec :: "nat tool \<Rightarrow> (string \<rightharpoonup> tool_metrics) \<Rightarrow> unit \<Rightarrow> string + nat" where
  "failing_exec t tbl p = Inl ''boom''"

definition working_exec :: "nat tool \<Rightarrow> (string \<rightharpoonup> tool_metrics) \<Rightarrow> unit \<Rightarrow> string + nat" where
  "working_exec t tbl p = Inr (usageCount (metrics t))"

subsection \<open>Operations that throw\<close>

definition always_throws :: "string \<Rightarrow> assistant \<Rightarrow> (string + nat) \<times> assistant" where
  "always_throws message s = (Inl message, s)"

definition idle :: "nat \<Rightarrow> assistant" where
  "idle n = \<lparr>store = Map.empty, globalRetryCount = n, timers = []\<rparr>"

definition failing_port :: "string \<Rightarrow> unit tool_port" where
  "failing_port message =
     \<lparr>loadTool = (\<lambda>toolName s. (True, s)),
      registry_callTool = (\<lambda>toolName params s. (Inl message, s)),
      promptUser = (\<lambda>question s. ([], s)),
      nested_callTool = (\<lambda>toolName params s. (Inl message, s))\<rparr>"

subsection \<open>A language model with fixed replies and an engine for two kinds of script\<close>












section \<open>Properties of the JSON Extractor\<close>

subsection \<open>The scan does not depend on which candidates parse\<close>

lemma map_filter_snoc:
  "List.map_filter f (xs @ [x]) = List.map_filter f xs @ (case f x of Some v \<Rightarrow> [v] | None \<Rightarrow> [])"
  by (simp add: List.map_filter_def split: option.splits)

lemma same_scan_step:
  assumes "same_scan parse st st'"
  shows "same_scan parse (extract_step parse st c) (extract_step Some st' c)"
  using assms
  by (auto simp: same_scan_def extract_step_def append_char_def Let_def map_filter_snoc
      split: option.splits)

lemma same_scan_foldl:
  "same_scan parse st st' \<Longrightarrow>
   same_scan parse (foldl (extract_step parse) st cs) (foldl (extract_step Some) st' cs)"
  by (induction cs arbitrary: st st') (simp_all add: same_scan_step)

lemma same_scan_init: "same_scan parse scan_init scan_init"
  by (simp add: same_scan_def scan_init_def List.map_filter_def)

lemma extractJson_candidates:
  "extractJson parse content = List.map_filter parse (candidates content)"
  using same_scan_foldl [OF same_scan_init, of parse content]
  by (simp add: same_scan_def extractJson_def candidates_def)

text \<open>
  Claim C9. For every input text and every behaviour of \<^verbatim>\<open>JSON.parse\<close>, the extractor
  returns a list (the model is a total function: the scan is one pass over the text and the
  only operation that can throw is caught). A candidate whose parse fails is skipped and
  nothing else changes: the result is the list of candidates, found independently of the
  parser, with the failing ones left out and the others parsed, in order.
\<close>

theorem extractJson_skips_failed_candidates:
  "extractJson parse content = List.map_filter parse (extractJson Some content)"
  using extractJson_candidates [of parse content] by (simp add: candidates_def)

subsection \<open>The worked example of the specification\<close>

lemma candidates_spec_example:
  \<open>candidates ''prefix {"a":1} middle [1,2,{"b":"}"}] suffix'' = [''{"a":1}'', ''[1,2,{"b":"}"}]'']\<close>
  unfolding candidates_def by code_simp

lemma in_string_keeps_depth:
  assumes "c \<noteq> CHR 0x22" and "c \<noteq> CHR 0x5C"
  shows "depth (extract_step parse (st\<lparr>inString := True, escapeNext := False\<rparr>) c) = depth st"
  using assms by (simp add: extract_step_def append_char_def)

text \<open>
  Claim C4. On the text \<^verbatim>\<open>prefix {"a":1} middle [1,2,{"b":"}"}] suffix\<close> the extractor hands
  exactly the two texts \<^verbatim>\<open>{"a":1}\<close> and \<^verbatim>\<open>[1,2,{"b":"}"}]\<close> to \<^verbatim>\<open>JSON.parse\<close>, so that, both
  being parsed, the result is their two values in the order of appearance. Inside a string
  (and not after a backslash) a brace or bracket leaves the depth as it is.
\<close>

theorem extractJson_spec_example:
  assumes \<open>parse ''{"a":1}'' = Some v1\<close>
    and \<open>parse ''[1,2,{"b":"}"}]'' = Some v2\<close>
    and \<open>c = CHR ''{'' \<or> c = CHR ''['' \<or> c = CHR ''}'' \<or> c = CHR '']''\<close>
  shows \<open>extractJson parse ''prefix {"a":1} middle [1,2,{"b":"}"}] suffix'' = [v1, v2] \<and>
         depth (extract_step parse (st\<lparr>inString := True, escapeNext := False\<rparr>) c) = depth st\<close>
proof
  show \<open>extractJson parse ''prefix {"a":1} middle [1,2,{"b":"}"}] suffix'' = [v1, v2]\<close>
    using assms(1,2)
    by (simp add: extractJson_candidates candidates_spec_example List.map_filter_def)
next
  from assms(3) have "c \<noteq> CHR 0x22" and "c \<noteq> CHR 0x5C" by auto
  then show "depth (extract_step parse (st\<lparr>inString := True, escapeNext := False\<rparr>) c) = depth st"
    by (rule in_string_keeps_depth)
qed

theorem extractJson_spec_example_witness:
  \<open>parse_json ''{"a":1}'' = Some (JObject [(''a'', JNumber 1)]) \<and>
   parse_json ''[1,2,{"b":"}"}]'' = Some (JArray [JNumber 1, JNumber 2, JObject [(''b'', JString ''}'')]]) \<and>
   extractJson parse_json ''prefix {"a":1} middle [1,2,{"b":"}"}] suffix''
     = [JObject [(''a'', JNumber 1)], JArray [JNumber 1, JNumber 2, JObject [(''b'', JString ''}'')]]] \<and>
   depth (extract_step parse_json
            ((scan_init :: json scan)\<lparr>depth := 2, inString := True, escapeNext := False\<rparr>) (CHR ''}'')) = 2\<close>
proof -
  have h1: \<open>parse_json ''{"a":1}'' = Some (JObject [(''a'', JNumber 1)])\<close>
    by code_simp
  have h2: \<open>parse_json ''[1,2,{"b":"}"}]''
              = Some (JArray [JNumber 1, JNumber 2, JObject [(''b'', JString ''}'')]])\<close>
    by code_simp
  have h3: \<open>CHR ''}'' = CHR ''{'' \<or> CHR ''}'' = CHR ''['' \<or> CHR ''}'' = CHR ''}'' \<or> CHR ''}'' = CHR '']''\<close>
    by simp
  show ?thesis
    using extractJson_spec_example [OF h1 h2 h3, of "(scan_init :: json scan)\<lparr>depth := 2\<rparr>"] h1 h2
    by simp
qed

section \<open>Properties of the registry\<close>

subsection \<open>update: the version\<close>



subsection \<open>Whole numbers up to \<open>2 ^ 53\<close> are doubles\<close>















subsection \<open>remove\<close>

lemma length_filter_less_iff: "length (filter P xs) < length xs \<longleftrightarrow> (\<exists>x \<in> set xs. \<not> P x)"
proof (induction xs)
  case Nil
  then show ?case by simp
next
  case (Cons x xs)
  have "length (filter P xs) \<le> length xs" by simp
  with Cons show ?case by auto
qed

text \<open>
  Claim C8, as amended. \<^verbatim>\<open>removeTool\<close> returns \<^verbatim>\<open>true\<close> exactly when a unit of that name was
  registered; afterwards no unit has the name and the others are kept in their order; a
  second removal of the name returns \<^verbatim>\<open>false\<close> and leaves the registry as it is. The
  metrics table is not touched: the removed unit's entry stays.
\<close>

theorem removeTool_keeps_metrics:
  "fst (ToolRegistry_removeTool n reg) = (n \<in> name ` set (tools reg)) \<and>
   n \<notin> name ` set (tools (snd (ToolRegistry_removeTool n reg))) \<and>
   tools (snd (ToolRegistry_removeTool n reg)) = filter (\<lambda>t. name t \<noteq> n) (tools reg) \<and>
   ToolRegistry_removeTool n (snd (ToolRegistry_removeTool n reg))
     = (False, snd (ToolRegistry_removeTool n reg)) \<and>
   registryMetrics (snd (ToolRegistry_removeTool n reg)) = registryMetrics reg"
  by (auto simp: ToolRegistry_removeTool_def Let_def length_filter_less_iff)

text \<open>
  Claim C8 as stated fails in its last part: removing the unit \<^verbatim>\<open>t\<close> of the worked registry
  succeeds and empties the list of units, and the table still holds the entry of \<^verbatim>\<open>t\<close>.
\<close>

theorem removeTool_metrics_counterexample:
  "fst (ToolRegistry_removeTool ''t'' example_registry) \<and>
   tools (snd (ToolRegistry_removeTool ''t'' example_registry)) = [] \<and>
   registryMetrics example_registry ''t'' = Some (zero_metrics [''1.0.0'']) \<and>
   registryMetrics (snd (ToolRegistry_removeTool ''t'' example_registry)) ''t''
     = Some (zero_metrics [''1.0.0''])"
  by (simp add: ToolRegistry_removeTool_def example_registry_def example_tool_def
      Tool_initializeMetrics_def Let_def)

subsection \<open>call: usage, execution statistics and error rate\<close>

lemma Tool_updateMetrics_Usage:
  "usageCount (metrics (fst (Tool_updateMetrics Usage st))) = usageCount (metrics (fst st)) + 1 \<and>
   executionStats (metrics (fst (Tool_updateMetrics Usage st))) = executionStats (metrics (fst st)) \<and>
   errorRate (metrics (fst (Tool_updateMetrics Usage st))) = errorRate (metrics (fst st))"
  by (simp add: Tool_updateMetrics_def switch_update_def Let_def)

lemma Tool_updateMetrics_Error:
  "usageCount (metrics (fst (Tool_updateMetrics (Error b) st))) = usageCount (metrics (fst st)) \<and>
   executionStats (metrics (fst (Tool_updateMetrics (Error b) st))) = executionStats (metrics (fst st)) \<and>
   errorRate (metrics (fst (Tool_updateMetrics (Error b) st)))
     = (errorRate (metrics (fst st)) * real (usageCount (metrics (fst st))) + (if b then 1 else 0))
       / real (usageCount (metrics (fst st)) + 1)"
  by (simp add: Tool_updateMetrics_def switch_update_def Let_def)

lemma Tool_updateMetrics_Execution:
  "usageCount (metrics (fst (Tool_updateMetrics (Execution x) st))) = usageCount (metrics (fst st)) \<and>
   errorRate (metrics (fst (Tool_updateMetrics (Execution x) st))) = errorRate (metrics (fst st)) \<and>
   executionStats (metrics (fst (Tool_updateMetrics (Execution x) st)))
     = executionStats (switch_update (Execution x) (metrics (fst st)))"
  by (simp add: Tool_updateMetrics_def switch_update_def Let_def)

text \<open>
  Claim C10. \<^verbatim>\<open>Tool.call\<close> increments \<^verbatim>\<open>usageCount\<close> by one before the unit's code runs (the
  code is run on the state that already holds the incremented count), and the count after the
  call is the old one plus one whether the code returns or throws. When it throws the
  execution statistics are unchanged; when it returns, \<^verbatim>\<open>totalExecutions\<close> is increased by
  one and the time statistics take the elapsed time in.
\<close>

theorem Tool_call_counts_attempts:
  assumes "Tool_call exec elapsed params (t, tbl) = (res, t', tbl')"
  shows "(\<exists>t1 tbl1. Tool_updateMetrics Usage (t, tbl) = (t1, tbl1) \<and>
            usageCount (metrics t1) = usageCount (metrics t) + 1 \<and>
            res = exec t1 tbl1 params) \<and>
         usageCount (metrics t') = usageCount (metrics t) + 1 \<and>
         (case res of
            Inl e \<Rightarrow> executionStats (metrics t') = executionStats (metrics t)
          | Inr v \<Rightarrow>
              totalExecutions (executionStats (metrics t')) = totalExecutions (executionStats (metrics t)) + 1 \<and>
              lastExecutionTime (executionStats (metrics t')) = Some elapsed \<and>
              averageExecutionTime (executionStats (metrics t'))
                = (averageExecutionTime (executionStats (metrics t)) * real (totalExecutions (executionStats (metrics t)))
                   + elapsed) / real (totalExecutions (executionStats (metrics t)) + 1))"
proof -
  obtain t1 tbl1 where st1: "Tool_updateMetrics Usage (t, tbl) = (t1, tbl1)"
    by (cases "Tool_updateMetrics Usage (t, tbl)")
  have u1: "usageCount (metrics t1) = usageCount (metrics t) + 1"
    and e1: "executionStats (metrics t1) = executionStats (metrics t)"
    using Tool_updateMetrics_Usage [of "(t, tbl)"] st1 by simp_all
  show ?thesis
  proof (cases "exec t1 tbl1 params")
    case (Inl e)
    with assms st1 have r: "res = Inl e" and t': "t' = fst (Tool_updateMetrics (Error True) (t1, tbl1))"
      by (auto simp: Tool_call_def Let_def)
    show ?thesis
      using st1 u1 e1 Inl r t' Tool_updateMetrics_Error [of True "(t1, tbl1)"] by simp
  next
    case (Inr v)
    with assms st1 have r: "res = Inr v" and t': "t' = fst (Tool_updateMetrics (Execution elapsed) (t1, tbl1))"
      by (auto simp: Tool_call_def Let_def)
    show ?thesis
      using st1 u1 e1 Inr r t' Tool_updateMetrics_Execution [of elapsed "(t1, tbl1)"]
      by (simp add: switch_update_def Let_def)
  qed
qed

theorem Tool_call_counts_attempts_witness:
  "Tool_call working_exec 5 () (example_tool, Map.empty)
     = (Inr 1, fst (snd (Tool_call working_exec 5 () (example_tool, Map.empty))),
        snd (snd (Tool_call working_exec 5 () (example_tool, Map.empty)))) \<and>
   usageCount (metrics example_tool) = 0 \<and>
   usageCount (metrics (fst (snd (Tool_call working_exec 5 () (example_tool, Map.empty))))) = 1 \<and>
   totalExecutions (executionStats (metrics (fst (snd (Tool_call working_exec 5 () (example_tool, Map.empty)))))) = 1 \<and>
   Tool_call failing_exec 5 () (example_tool, Map.empty)
     = (Inl ''boom'', fst (snd (Tool_call failing_exec 5 () (example_tool, Map.empty))),
        snd (snd (Tool_call failing_exec 5 () (example_tool, Map.empty)))) \<and>
   usageCount (metrics (fst (snd (Tool_call failing_exec 5 () (example_tool, Map.empty))))) = 1 \<and>
   totalExecutions (executionStats (metrics (fst (snd (Tool_call failing_exec 5 () (example_tool, Map.empty)))))) = 0"
proof -
  have w: "Tool_call working_exec 5 () (example_tool, Map.empty)
     = (Inr 1, fst (snd (Tool_call working_exec 5 () (example_tool, Map.empty))),
        snd (snd (Tool_call working_exec 5 () (example_tool, Map.empty))))"
    by (simp add: Tool_call_def Tool_updateMetrics_def switch_update_def working_exec_def Let_def
        example_tool_def Tool_initializeMetrics_def zero_metrics_def)
  have f: "Tool_call failing_exec 5 () (example_tool, Map.empty)
     = (Inl ''boom'', fst (snd (Tool_call failing_exec 5 () (example_tool, Map.empty))),
        snd (snd (Tool_call failing_exec 5 () (example_tool, Map.empty))))"
    by (simp add: Tool_call_def Tool_updateMetrics_def switch_update_def failing_exec_def Let_def)
  have z: "usageCount (metrics example_tool) = 0 \<and> totalExecutions (executionStats (metrics example_tool)) = 0"
    by (simp add: example_tool_def Tool_initializeMetrics_def zero_metrics_def zero_stats_def)
  show ?thesis
    using w f z Tool_call_counts_attempts [OF w] Tool_call_counts_attempts [OF f]
    by simp
qed

lemma Tool_call_failure_errorRate:
  assumes "Tool_call exec elapsed params (t, tbl) = (Inl e, t', tbl')"
  shows "errorRate (metrics t')
         = (errorRate (metrics t) * real (usageCount (metrics t) + 1) + 1) / real (usageCount (metrics t) + 2)"
proof -
  obtain t1 tbl1 where st1: "Tool_updateMetrics Usage (t, tbl) = (t1, tbl1)"
    by (cases "Tool_updateMetrics Usage (t, tbl)")
  have u1: "usageCount (metrics t1) = usageCount (metrics t) + 1"
    and r1: "errorRate (metrics t1) = errorRate (metrics t)"
    using Tool_updateMetrics_Usage [of "(t, tbl)"] st1 by simp_all
  from assms st1 have "t' = fst (Tool_updateMetrics (Error True) (t1, tbl1))"
    by (auto simp: Tool_call_def Let_def split: sum.splits)
  then show ?thesis
    using u1 r1 Tool_updateMetrics_Error [of True "(t1, tbl1)"] by (simp add: add.commute)
qed

text \<open>
  Claim C7, at a failing input. A unit that has never been invoked (usage count 0, error rate
  0) is invoked and its code throws. The formula of the claim, with the count before the
  call, gives the error rate 1; the source increments the count first and stores 1/2.
\<close>

theorem Tool_call_first_failure:
  "usageCount (metrics example_tool) = 0 \<and> errorRate (metrics example_tool) = 0 \<and>
   fst (Tool_call failing_exec 5 () (example_tool, Map.empty)) = Inl ''boom'' \<and>
   errorRate (metrics (fst (snd (Tool_call failing_exec 5 () (example_tool, Map.empty))))) = 1 / 2 \<and>
   (errorRate (metrics example_tool) * real (usageCount (metrics example_tool)) + 1)
     / real (usageCount (metrics example_tool) + 1) = 1"
  by (simp add: Tool_call_def Tool_updateMetrics_def switch_update_def failing_exec_def Let_def
      example_tool_def Tool_initializeMetrics_def zero_metrics_def)

section \<open>Properties of the retry wrapper\<close>

lemma is_retry_simps [simp]:
  "is_retry (RetryDelay d)" "\<not> is_retry (Pause d)" "\<not> is_retry (RepairDelay d)"
  by (simp_all add: is_retry_def)

lemma take_eq_iff_prefix: "take (length m) s = m \<longleftrightarrow> (\<exists>ss. s = m @ ss)"
  by (metis append_eq_conv_conj append_take_drop_id)

lemma str_includes_iff: "str_includes s m \<longleftrightarrow> (\<exists>ps ss. s = ps @ m @ ss)"
proof (induction s)
  case Nil
  then show ?case by auto
next
  case (Cons c cs)
  show ?case
  proof
    assume "str_includes (c # cs) m"
    then consider "take (length m) (c # cs) = m" | "str_includes cs m" by auto
    then show "\<exists>ps ss. c # cs = ps @ m @ ss"
    proof cases
      case 1
      then obtain ss where "c # cs = m @ ss" using take_eq_iff_prefix by metis
      then have "c # cs = [] @ m @ ss" by simp
      then show ?thesis by blast
    next
      case 2
      with Cons obtain ps ss where "cs = ps @ m @ ss" by blast
      then have "c # cs = (c # ps) @ m @ ss" by simp
      then show ?thesis by blast
    qed
  next
    assume "\<exists>ps ss. c # cs = ps @ m @ ss"
    then obtain ps ss where e: "c # cs = ps @ m @ ss" by blast
    show "str_includes (c # cs) m"
    proof (cases ps)
      case Nil
      with e have "take (length m) (c # cs) = m" using take_eq_iff_prefix by fastforce
      then show ?thesis by simp
    next
      case (Cons p ps')
      with e have "cs = ps' @ m @ ss" by simp
      with Cons.IH have "str_includes cs m" by blast
      then show ?thesis by simp
    qed
  qed
qed

lemma isRetryableError_iff:
  "isRetryableError err \<longleftrightarrow>
     (\<exists>message \<in> set retryableErrorMessages. \<exists>ps ss. toLowerCase err = ps @ message @ ss)"
  by (simp add: isRetryableError_def list_ex_iff str_includes_iff)

lemma retryable_connection_refused: "isRetryableError ''connection refused while dialing''"
  by code_simp

lemma not_retryable_invalid_parameter: "\<not> isRetryableError ''invalid parameter''"
  by code_simp

lemma not_retryable_global: "\<not> isRetryableError ''Global retry limit exceeded.''"
  by code_simp

lemma attempt_gate:
  "globalRetryLimit < globalRetryCount s + 1 \<Longrightarrow>
   attempt operation s = (Inl ''Global retry limit exceeded.'', s\<lparr>globalRetryCount := globalRetryCount s + 1\<rparr>)"
  by (simp add: attempt_def Let_def)

lemma attempt_open:
  "globalRetryCount s < globalRetryLimit \<Longrightarrow>
   attempt operation s = operation (pause 1000 (s\<lparr>globalRetryCount := globalRetryCount s + 1\<rparr>))"
  by (simp add: attempt_def Let_def)

lemma retry_loop_gate:
  assumes "globalRetryLimit < globalRetryCount s + 1"
  shows "retry_loop operation maxRetries delay retries s
         = (Inl ''Global retry limit exceeded.'', s\<lparr>globalRetryCount := globalRetryCount s + 1\<rparr>)"
  by (subst retry_loop.simps) (simp add: attempt_gate [OF assms] not_retryable_global)

lemma retry_loop_not_retryable:
  assumes "attempt operation s = (Inl err, s2)" and "\<not> isRetryableError err"
  shows "retry_loop operation maxRetries delay retries s = (Inl err, s2)"
  by (subst retry_loop.simps) (simp add: assms)

lemma attempt_confined:
  assumes "confined operation"
  shows "globalRetryCount (snd (attempt operation s)) = globalRetryCount s + 1 \<and>
         (timers (snd (attempt operation s)) = timers s \<or>
          timers (snd (attempt operation s)) = timers s @ [Pause 1000])"
  using assms by (auto simp: attempt_def Let_def confined_def pause_def)

lemma retry_loop_counts:
  assumes "confined operation"
  shows "\<exists>ws. timers (snd (retry_loop operation maxRetries delay retries s)) = timers s @ ws \<and>
              globalRetryCount (snd (retry_loop operation maxRetries delay retries s))
                = globalRetryCount s + 1 + length (filter is_retry ws)"
  using assms
proof (induction operation maxRetries delay retries s rule: retry_loop.induct)
  case (1 operation maxRetries delay retries s)
  obtain r s2 where a: "attempt operation s = (r, s2)" by (cases "attempt operation s")
  from attempt_confined [OF "1.prems", of s] a
  have c2: "globalRetryCount s2 = globalRetryCount s + 1"
    and t2: "timers s2 = timers s \<or> timers s2 = timers s @ [Pause 1000]" by simp_all
  from t2 obtain ws0 where ws0: "timers s2 = timers s @ ws0" "filter is_retry ws0 = []"
    by auto
  show ?case
  proof (cases r)
    case (Inr v)
    then show ?thesis using a c2 ws0 by (subst (1 2) retry_loop.simps) simp
  next
    case (Inl e)
    show ?thesis
    proof (cases "maxRetries \<le> retries \<or> \<not> isRetryableError e")
      case True
      then show ?thesis using a Inl c2 ws0 by (subst (1 2) retry_loop.simps) auto
    next
      case False
      let ?s3 = "retry_wait (delay * 2 ^ (retries + 1)) s2"
      from "1.IH" [OF a [symmetric] Inl False "1.prems"]
      obtain ws where ws: "timers (snd (retry_loop operation maxRetries delay (retries + 1) ?s3)) = timers ?s3 @ ws"
        "globalRetryCount (snd (retry_loop operation maxRetries delay (retries + 1) ?s3))
           = globalRetryCount ?s3 + 1 + length (filter is_retry ws)" by blast
      have step: "retry_loop operation maxRetries delay retries s
                  = retry_loop operation maxRetries delay (retries + 1) ?s3"
        using a Inl False by (subst retry_loop.simps) simp
      have "timers ?s3 = timers s @ ws0 @ [RetryDelay (delay * 2 ^ (retries + 1))]"
        and "globalRetryCount ?s3 = globalRetryCount s + 1"
        using ws0 c2 by (simp_all add: retry_wait_def)
      with ws step ws0(2) show ?thesis
        by (intro exI [of _ "ws0 @ [RetryDelay (delay * 2 ^ (retries + 1))] @ ws"])
           simp
    qed
  qed
qed

lemma retry_loop_transient:
  assumes conf: "confined operation"
    and fails: "\<forall>x. fst (operation x) = Inl err"
    and retryable: "isRetryableError err"
    and room: "globalRetryCount s + (maxRetries - retries) < globalRetryLimit"
    and le: "retries \<le> maxRetries"
  shows "fst (retry_loop operation maxRetries delay retries s) = Inl err \<and>
         globalRetryCount (snd (retry_loop operation maxRetries delay retries s))
           = globalRetryCount s + (maxRetries - retries) + 1 \<and>
         timers (snd (retry_loop operation maxRetries delay retries s))
           = timers s @ backoff_schedule delay retries maxRetries"
  using room le
proof (induction "maxRetries - retries" arbitrary: retries s)
  case 0
  then have eq: "retries = maxRetries" by simp
  from 0 have lt: "globalRetryCount s < globalRetryLimit" by simp
  let ?s1 = "pause 1000 (s\<lparr>globalRetryCount := globalRetryCount s + 1\<rparr>)"
  obtain s2 where op: "operation ?s1 = (Inl err, s2)"
    using fails by (metis fst_conv surj_pair)
  have s2: "globalRetryCount s2 = globalRetryCount s + 1" "timers s2 = timers s @ [Pause 1000]"
    using conf op by (auto simp: confined_def pause_def dest: spec [of _ ?s1])
  have "retry_loop operation maxRetries delay retries s = (Inl err, s2)"
    using eq op by (subst retry_loop.simps) (simp add: attempt_open [OF lt])
  then show ?case using s2 eq by (simp add: backoff_schedule_def)
next
  case (Suc n)
  then have lt: "globalRetryCount s < globalRetryLimit" and r: "retries < maxRetries" by simp_all
  let ?s1 = "pause 1000 (s\<lparr>globalRetryCount := globalRetryCount s + 1\<rparr>)"
  obtain s2 where op: "operation ?s1 = (Inl err, s2)"
    using fails by (metis fst_conv surj_pair)
  have s2: "globalRetryCount s2 = globalRetryCount s + 1" "timers s2 = timers s @ [Pause 1000]"
    using conf op by (auto simp: confined_def pause_def dest: spec [of _ ?s1])
  let ?s3 = "retry_wait (delay * 2 ^ (retries + 1)) s2"
  have step: "retry_loop operation maxRetries delay retries s
              = retry_loop operation maxRetries delay (retries + 1) ?s3"
    using r op retryable by (subst retry_loop.simps) (simp add: attempt_open [OF lt])
  have s3: "globalRetryCount ?s3 = globalRetryCount s + 1"
    "timers ?s3 = timers s @ [Pause 1000, RetryDelay (delay * 2 ^ (retries + 1))]"
    using s2 by (simp_all add: retry_wait_def)
  have n: "n = maxRetries - (retries + 1)" using Suc.hyps(2) by simp
  have room': "globalRetryCount ?s3 + (maxRetries - (retries + 1)) < globalRetryLimit"
    using Suc.prems(1) r s3(1) by simp
  have le': "retries + 1 \<le> maxRetries" using r by simp
  from Suc.hyps(1) [OF n room' le']
  have ih: "fst (retry_loop operation maxRetries delay (retries + 1) ?s3) = Inl err"
    "globalRetryCount (snd (retry_loop operation maxRetries delay (retries + 1) ?s3))
       = globalRetryCount ?s3 + (maxRetries - (retries + 1)) + 1"
    "timers (snd (retry_loop operation maxRetries delay (retries + 1) ?s3))
       = timers ?s3 @ backoff_schedule delay (retries + 1) maxRetries"
    by simp_all
  have sched: "backoff_schedule delay retries maxRetries
               = [Pause 1000, RetryDelay (delay * 2 ^ (retries + 1))] @ backoff_schedule delay (retries + 1) maxRetries"
  proof -
    have "[Suc retries..<Suc maxRetries] = Suc retries # [Suc (retries + 1)..<Suc maxRetries]"
      using r by (simp add: upt_conv_Cons del: upt_Suc)
    then show ?thesis by (simp add: backoff_schedule_def del: upt_Suc)
  qed
  show ?case
    using step ih s3 sched r by simp
qed

lemma backoff_increasing:
  assumes "0 < delay"
  shows "sorted_wrt (<) (map (\<lambda>k. (delay::nat) * 2 ^ k) [Suc retries..<Suc maxRetries])"
proof -
  have "sorted_wrt (\<lambda>i j. delay * 2 ^ i < delay * 2 ^ j) [Suc retries..<Suc maxRetries]"
  proof (rule sorted_wrt_mono_rel [OF _ sorted_wrt_upt])
    fix i j :: nat
    assume "i < j"
    then show "delay * 2 ^ i < delay * 2 ^ j" using assms by simp
  qed
  then show ?thesis by (simp only: sorted_wrt_map)
qed

lemma retryable_network_timeout: "isRetryableError ''network timeout''"
  by code_simp

lemma confined_always_throws: "confined (always_throws message)"
  by (simp add: confined_def always_throws_def)

lemma schedule_3_1000:
  "backoff_schedule 1000 0 3
     = [Pause 1000, RetryDelay 2000, Pause 1000, RetryDelay 4000, Pause 1000, RetryDelay 8000, Pause 1000]"
  by (simp add: backoff_schedule_def upt_rec)

lemma confined_throwing: "confined (\<lambda>s. (Inl message, s))"
  by (simp add: confined_def)

lemma throwing_run:
  assumes "isRetryableError message"
  shows "fst (retryOperation (\<lambda>s. (Inl message :: string + 'r, s)) 3 1000 (idle 0)) = Inl message \<and>
         globalRetryCount (snd (retryOperation (\<lambda>s. (Inl message :: string + 'r, s)) 3 1000 (idle 0))) = 4 \<and>
         timers (snd (retryOperation (\<lambda>s. (Inl message :: string + 'r, s)) 3 1000 (idle 0)))
           = [Pause 1000, RetryDelay 2000, Pause 1000, RetryDelay 4000, Pause 1000, RetryDelay 8000, Pause 1000]"
proof -
  have room: "globalRetryCount (idle 0) + (3 - 0) < globalRetryLimit"
    by (simp add: idle_def globalRetryLimit_def)
  have fails: "\<forall>x::assistant. fst ((\<lambda>s. (Inl message :: string + 'r, s)) x) = Inl message"
    by simp
  have le: "(0::nat) \<le> 3"
    by simp
  note run = retry_loop_transient [OF confined_throwing fails assms room le, where delay = 1000]
  then show ?thesis
    by (simp add: retryOperation_def schedule_3_1000 idle_def)
qed

lemma always_throws_eq: "always_throws message = (\<lambda>s. (Inl message, s))"
  by (simp add: always_throws_def fun_eq_iff)

lemmas run_transient = throwing_run [where 'r = nat, folded always_throws_eq, OF retryable_network_timeout]

lemma failing_port_operation:
  assumes "toolName \<noteq> ''ask''" and "toolName \<noteq> ''busybox''"
  shows "callTool_operation (failing_port message) toolName params = (\<lambda>s. (Inl message, s))"
  using assms by (simp add: callTool_operation_def failing_port_def fun_eq_iff)

lemma search_is_plain: "''search'' \<noteq> ''ask''" "''search'' \<noteq> ''busybox''"
  by simp_all

lemma callTool_transient_run:
  "fst (callTool (failing_port ''connection refused while dialing'') ''search'' None (idle 0))
     = Inl ''connection refused while dialing''"
  "timers (snd (callTool (failing_port ''connection refused while dialing'') ''search'' None (idle 0)))
     = [Pause 1000, RetryDelay 2000, Pause 1000, RetryDelay 4000, Pause 1000, RetryDelay 8000, Pause 1000]"
  using throwing_run [where 'r = "json option", OF retryable_connection_refused]
  by (simp_all add: callTool_def failing_port_operation [OF search_is_plain])

lemma callTool_permanent_run:
  "fst (callTool (failing_port ''invalid parameter'') ''search'' None (idle 0)) = Inl ''invalid parameter''"
  "timers (snd (callTool (failing_port ''invalid parameter'') ''search'' None (idle 0))) = [Pause 1000]"
proof -
  have lt: "globalRetryCount (idle 0) < globalRetryLimit"
    by (simp add: idle_def globalRetryLimit_def)
  have "retry_loop (\<lambda>s. (Inl ''invalid parameter'' :: string + json option, s)) 3 1000 0 (idle 0)
        = (Inl ''invalid parameter'', pause 1000 ((idle 0)\<lparr>globalRetryCount := globalRetryCount (idle 0) + 1\<rparr>))"
    by (rule retry_loop_not_retryable [OF _ not_retryable_invalid_parameter])
       (simp only: attempt_open [OF lt])
  then show "fst (callTool (failing_port ''invalid parameter'') ''search'' None (idle 0)) = Inl ''invalid parameter''"
    and "timers (snd (callTool (failing_port ''invalid parameter'') ''search'' None (idle 0))) = [Pause 1000]"
    by (simp_all add: callTool_def failing_port_operation [OF search_is_plain] retryOperation_def
        pause_def idle_def)
qed

text \<open>
  Claim C5. The ceiling of the counter is 100. Once the counter exceeds it, every operation
  run through the wrapper, whatever it is and whatever errors it would throw, fails at once
  with the error \<^verbatim>\<open>Global retry limit exceeded.\<close>: the operation is not run, nothing is
  waited for, the counter is incremented once more and so stays above the ceiling. Every
  attempt increments the counter, the first one included: after a run of a confined
  operation the counter has grown by one plus the number of retry delays of the run.
\<close>

theorem global_retry_ceiling:
  "globalRetryLimit = 100 \<and>
   (globalRetryLimit < globalRetryCount s \<longrightarrow>
      retryOperation operation maxRetries delay s
        = (Inl ''Global retry limit exceeded.'', s\<lparr>globalRetryCount := globalRetryCount s + 1\<rparr>) \<and>
      globalRetryLimit < globalRetryCount (snd (retryOperation operation maxRetries delay s))) \<and>
   (confined operation \<longrightarrow>
      (\<exists>ws. timers (snd (retryOperation operation maxRetries delay s)) = timers s @ ws \<and>
            globalRetryCount (snd (retryOperation operation maxRetries delay s))
              = globalRetryCount s + 1 + length (filter is_retry ws)))"
proof (intro conjI impI)
  show "globalRetryLimit = 100" by (simp add: globalRetryLimit_def)
next
  assume "globalRetryLimit < globalRetryCount s"
  then have g: "globalRetryLimit < globalRetryCount s + 1" by simp
  show "retryOperation operation maxRetries delay s
        = (Inl ''Global retry limit exceeded.'', s\<lparr>globalRetryCount := globalRetryCount s + 1\<rparr>)"
    unfolding retryOperation_def by (rule retry_loop_gate [OF g])
  then show "globalRetryLimit < globalRetryCount (snd (retryOperation operation maxRetries delay s))"
    using g by simp
next
  assume "confined operation"
  then show "\<exists>ws. timers (snd (retryOperation operation maxRetries delay s)) = timers s @ ws \<and>
            globalRetryCount (snd (retryOperation operation maxRetries delay s))
              = globalRetryCount s + 1 + length (filter is_retry ws)"
    unfolding retryOperation_def by (rule retry_loop_counts)
qed

theorem global_retry_ceiling_witness:
  "isRetryableError ''network timeout'' \<and>
   globalRetryLimit < globalRetryCount (idle 101) \<and>
   retryOperation (always_throws ''network timeout'') 3 1000 (idle 101)
     = (Inl ''Global retry limit exceeded.'', idle 102) \<and>
   globalRetryLimit < globalRetryCount (snd (retryOperation (always_throws ''network timeout'') 3 1000 (idle 101))) \<and>
   confined (always_throws ''network timeout'') \<and>
   timers (snd (retryOperation (always_throws ''network timeout'') 3 1000 (idle 0)))
     = timers (idle 0) @ [Pause 1000, RetryDelay 2000, Pause 1000, RetryDelay 4000, Pause 1000, RetryDelay 8000, Pause 1000] \<and>
   globalRetryCount (snd (retryOperation (always_throws ''network timeout'') 3 1000 (idle 0)))
     = globalRetryCount (idle 0) + 1 + 3"
proof -
  have h: "globalRetryLimit < globalRetryCount (idle 101)"
    by (simp add: globalRetryLimit_def idle_def)
  have i: "(idle 101)\<lparr>globalRetryCount := globalRetryCount (idle 101) + 1\<rparr> = idle 102"
    by (simp add: idle_def)
  show ?thesis
    using global_retry_ceiling [of "idle 101" "always_throws ''network timeout''" 3 1000]
      h i retryable_network_timeout confined_always_throws [of "''network timeout''"]
      run_transient
    by (simp add: idle_def)
qed

text \<open>
  Claim C6. An error is retryable exactly when its lower-cased message contains one of the
  three fixed texts, and an attempt that fails with an error that is not retryable ends the
  run with that error. An operation whose every attempt throws
  \<^verbatim>\<open>connection refused while dialing\<close> is attempted \<open>maxRetries + 1\<close> times (while the
  counter stays below its ceiling) and the error is then thrown to the caller; the retry
  delays are \<open>delay * 2 ^ k\<close> for \<open>k = 1, ..., maxRetries\<close>, strictly increasing. An
  operation that throws \<^verbatim>\<open>invalid parameter\<close> is attempted once and its error is thrown to
  the caller without any retry delay.
\<close>

theorem retryOperation_classifies_errors:
  assumes "confined transient"
    and "\<forall>x. fst (transient x) = Inl ''connection refused while dialing''"
    and "\<forall>x. fst (permanent x) = Inl ''invalid parameter''"
    and "globalRetryCount s + maxRetries < globalRetryLimit"
    and "0 < delay"
  shows "(isRetryableError err \<longleftrightarrow>
            (\<exists>message \<in> set retryableErrorMessages. \<exists>ps ss. toLowerCase err = ps @ message @ ss)) \<and>
         (\<forall>operation retries s2.
            attempt operation s = (Inl err, s2) \<and> \<not> isRetryableError err \<longrightarrow>
            retry_loop operation maxRetries delay retries s = (Inl err, s2)) \<and>
         fst (retryOperation transient maxRetries delay s) = Inl ''connection refused while dialing'' \<and>
         globalRetryCount (snd (retryOperation transient maxRetries delay s))
           = globalRetryCount s + maxRetries + 1 \<and>
         timers (snd (retryOperation transient maxRetries delay s))
           = timers s @ backoff_schedule delay 0 maxRetries \<and>
         filter is_retry (backoff_schedule delay 0 maxRetries)
           = map (\<lambda>k. RetryDelay (delay * 2 ^ k)) [1..<Suc maxRetries] \<and>
         sorted_wrt (<) (map (\<lambda>k. delay * 2 ^ k) [1..<Suc maxRetries]) \<and>
         retryOperation permanent maxRetries delay s
           = permanent (pause 1000 (s\<lparr>globalRetryCount := globalRetryCount s + 1\<rparr>))"
proof -
  have lt: "globalRetryCount s < globalRetryLimit" using assms(4) by simp
  have t: "fst (retry_loop transient maxRetries delay 0 s) = Inl ''connection refused while dialing'' \<and>
           globalRetryCount (snd (retry_loop transient maxRetries delay 0 s))
             = globalRetryCount s + (maxRetries - 0) + 1 \<and>
           timers (snd (retry_loop transient maxRetries delay 0 s))
             = timers s @ backoff_schedule delay 0 maxRetries"
    using assms(4) by (intro retry_loop_transient [OF assms(1,2) retryable_connection_refused]) simp_all
  have f: "filter is_retry (backoff_schedule delay 0 maxRetries)
           = map (\<lambda>k. RetryDelay (delay * 2 ^ k)) [1..<Suc maxRetries]"
    unfolding backoff_schedule_def by (induction maxRetries) simp_all
  obtain s2 where p: "permanent (pause 1000 (s\<lparr>globalRetryCount := globalRetryCount s + 1\<rparr>))
                      = (Inl ''invalid parameter'', s2)"
    using assms(3) by (metis fst_conv surj_pair)
  have "retry_loop permanent maxRetries delay 0 s = (Inl ''invalid parameter'', s2)"
    by (rule retry_loop_not_retryable [OF _ not_retryable_invalid_parameter])
       (simp only: attempt_open [OF lt] p)
  with p have q: "retryOperation permanent maxRetries delay s
                  = permanent (pause 1000 (s\<lparr>globalRetryCount := globalRetryCount s + 1\<rparr>))"
    by (simp add: retryOperation_def)
  show ?thesis
    using t f q backoff_increasing [OF assms(5), of 0 maxRetries] isRetryableError_iff [of err]
      retry_loop_not_retryable [of _ s err]
    by (simp add: retryOperation_def) blast
qed

theorem retryOperation_classifies_errors_witness:
  "confined (always_throws ''connection refused while dialing'') \<and>
   globalRetryCount (idle 0) + 3 < globalRetryLimit \<and>
   isRetryableError ''connection refused while dialing'' \<and>
   \<not> isRetryableError ''invalid parameter'' \<and>
   fst (retryOperation (always_throws ''connection refused while dialing'') 3 1000 (idle 0))
     = Inl ''connection refused while dialing'' \<and>
   globalRetryCount (snd (retryOperation (always_throws ''connection refused while dialing'') 3 1000 (idle 0))) = 4 \<and>
   timers (snd (retryOperation (always_throws ''connection refused while dialing'') 3 1000 (idle 0)))
     = [Pause 1000, RetryDelay 2000, Pause 1000, RetryDelay 4000, Pause 1000, RetryDelay 8000, Pause 1000] \<and>
   sorted_wrt (<) [2000, 4000, 8000 :: nat] \<and>
   retryOperation (always_throws ''invalid parameter'') 3 1000 (idle 0)
     = (Inl ''invalid parameter'', pause 1000 (idle 1)) \<and>
   fst (callTool (failing_port ''connection refused while dialing'') ''search'' None (idle 0))
     = Inl ''connection refused while dialing'' \<and>
   timers (snd (callTool (failing_port ''connection refused while dialing'') ''search'' None (idle 0)))
     = [Pause 1000, RetryDelay 2000, Pause 1000, RetryDelay 4000, Pause 1000, RetryDelay 8000, Pause 1000] \<and>
   fst (callTool (failing_port ''invalid parameter'') ''search'' None (idle 0)) = Inl ''invalid parameter'' \<and>
   timers (snd (callTool (failing_port ''invalid parameter'') ''search'' None (idle 0))) = [Pause 1000]"
proof -
  have c: "confined (always_throws ''connection refused while dialing'')"
    by (rule confined_always_throws)
  have t: "\<forall>x. fst (always_throws ''connection refused while dialing'' x) = Inl ''connection refused while dialing''"
    by (simp add: always_throws_def)
  have p: "\<forall>x. fst (always_throws ''invalid parameter'' x) = Inl ''invalid parameter''"
    by (simp add: always_throws_def)
  have r: "globalRetryCount (idle 0) + 3 < globalRetryLimit"
    by (simp add: idle_def globalRetryLimit_def)
  have d: "(0::nat) < 1000" by simp
  have i: "(idle 0)\<lparr>globalRetryCount := globalRetryCount (idle 0) + 1\<rparr> = idle 1"
    by (simp add: idle_def)
  note T = retryOperation_classifies_errors [OF c t p r d, of "''invalid parameter''"]
  have a1: "isRetryableError ''connection refused while dialing''"
    by (rule retryable_connection_refused)
  have a2: "\<not> isRetryableError ''invalid parameter''"
    by (rule not_retryable_invalid_parameter)
  note T2 = T [THEN conjunct2, THEN conjunct2]
  note T4 = T2 [THEN conjunct2]
  note T5 = T4 [THEN conjunct2]
  note T8 = T5 [THEN conjunct2, THEN conjunct2, THEN conjunct2]
  from T2 have a3: "fst (retryOperation (always_throws ''connection refused while dialing'') 3 1000 (idle 0))
     = Inl ''connection refused while dialing''" by (rule conjunct1)
  from T4 have "globalRetryCount (snd (retryOperation (always_throws ''connection refused while dialing'') 3 1000 (idle 0)))
     = globalRetryCount (idle 0) + 3 + 1" by (rule conjunct1)
  then have a4: "globalRetryCount (snd (retryOperation (always_throws ''connection refused while dialing'') 3 1000 (idle 0))) = 4"
    by (simp add: idle_def)
  from T5 have "timers (snd (retryOperation (always_throws ''connection refused while dialing'') 3 1000 (idle 0)))
     = timers (idle 0) @ backoff_schedule 1000 0 3" by (rule conjunct1)
  then have a5: "timers (snd (retryOperation (always_throws ''connection refused while dialing'') 3 1000 (idle 0)))
     = [Pause 1000, RetryDelay 2000, Pause 1000, RetryDelay 4000, Pause 1000, RetryDelay 8000, Pause 1000]"
    by (simp add: idle_def schedule_3_1000)
  have a6: "sorted_wrt (<) [2000, 4000, 8000 :: nat]" by simp
  have "retryOperation (always_throws ''invalid parameter'') 3 1000 (idle 0)
     = always_throws ''invalid parameter'' (pause 1000 ((idle 0)\<lparr>globalRetryCount := globalRetryCount (idle 0) + 1\<rparr>))"
    by (rule T8)
  then have a7: "retryOperation (always_throws ''invalid parameter'') 3 1000 (idle 0)
     = (Inl ''invalid parameter'', pause 1000 (idle 1))"
    by (simp only: i always_throws_def)
  show ?thesis
    using c r a1 a2 a3 a4 a5 a6 a7 callTool_transient_run callTool_permanent_run
    by (intro conjI)
qed

section \<open>Properties of the orchestrator\<close>

subsection \<open>The loop over the subtasks\<close>

















subsection \<open>The outward contract\<close>












end
